theory Spec2Isabelle
  imports Complex_Main
begin

section \<open>Sparkify data lake: the ETL job of etl.py\<close>

text \<open>
  The job reads two families of JSON records, derives five tables with dataframe
  operations and writes them as parquet files. A dataframe is modelled as the list of
  its rows; the order of the list is a representation only (the engine fixes none).
  A column that JSON may leave out or set to null is an \<open>option\<close>; a double is the
  rational number it denotes; a long is an \<open>int\<close>.

  The model covers \<^verbatim>\<open>process_song_data\<close>, \<^verbatim>\<open>process_log_data\<close> and
  \<^verbatim>\<open>main\<close>. The reading of the configuration file at module level (lines 11 to
  18) and the failures of the storage service are outside it.
\<close>

subsection \<open>Input records\<close>

text \<open>One record of \<^verbatim>\<open>song_data/*/*/*/*.json\<close>.\<close>

record song_rec =
  num_songs :: "int option"
  artist_id :: "string option"
  artist_latitude :: "rat option"
  artist_longitude :: "rat option"
  artist_location :: "string option"
  artist_name :: "string option"
  song_id :: "string option"
  title :: "string option"
  duration :: "rat option"
  year :: "int option"

text \<open>
  One record of \<^verbatim>\<open>log_data/*/*/*.json\<close>. The column \<^verbatim>\<open>length\<close> is named
  \<open>length_col\<close> here, \<^verbatim>\<open>method\<close> is \<open>method_col\<close>.
\<close>

record log_rec =
  artist :: "string option"
  auth :: "string option"
  firstName :: "string option"
  gender :: "string option"
  itemInSession :: "int option"
  lastName :: "string option"
  length_col :: "rat option"
  level :: "string option"
  location :: "string option"
  method_col :: "string option"
  page :: "string option"
  registration :: "rat option"
  sessionId :: "int option"
  song :: "string option"
  status :: "int option"
  ts :: "int option"
  userAgent :: "string option"
  userId :: "string option"

text \<open>A timestamp is a number of microseconds since 1970-01-01T00:00:00 UTC.\<close>

type_synonym timestamp = int

text \<open>
  A row of the log dataframe after lines 143 to 149: the event and the seven columns
  added by \<^verbatim>\<open>withColumn\<close>.
\<close>

record log_row =
  ev :: log_rec
  start_time :: "timestamp option"
  year :: "int option"
  month :: "int option"
  week :: "int option"
  weekday :: "string option"
  day :: "int option"
  hour :: "int option"

subsection \<open>Tables\<close>

text \<open>The result of a \<^verbatim>\<open>select\<close> is a tuple of the selected columns, in their order.\<close>

type_synonym songs_row =
  "string option \<times> string option \<times> string option \<times> int option \<times> rat option"
  \<comment> \<open>song_id, title, artist_id, year, duration\<close>

type_synonym view_row =
  "string option \<times> string option \<times> string option \<times> int option \<times> rat option \<times> string option"
  \<comment> \<open>song_id, title, artist_id, year, duration, artist_name\<close>

type_synonym artists_row =
  "string option \<times> string option \<times> string option \<times> rat option \<times> rat option"
  \<comment> \<open>artist_id, artist_name, artist_location, artist_latitude, artist_longitude\<close>

type_synonym users_row =
  "string option \<times> string option \<times> string option \<times> string option \<times> string option"
  \<comment> \<open>user_id, first_name, last_name, gender, level\<close>

type_synonym time_row =
  "timestamp option \<times> int option \<times> int option \<times> int option \<times> string option
     \<times> int option \<times> int option"
  \<comment> \<open>start_time, hour, day, week, weekday, year, month\<close>

type_synonym songplays_row =
  "timestamp option \<times> string option \<times> string option \<times> string option \<times> string option
     \<times> int option \<times> string option \<times> string option \<times> int option \<times> int option \<times> int"
  \<comment> \<open>start_time, userId, level, song_id, artist_id, sessionId, location, userAgent,
      year, month, songplay_id\<close>

datatype table =
    SongsTable "songs_row list"
  | ArtistsTable "artists_row list"
  | UsersTable "users_row list"
  | TimeTable "time_row list"
  | SongplaysTable "songplays_row list"

datatype json = SongJson "song_rec list" | LogJson "log_rec list"

datatype view = SongsView "view_row list" | LogView "log_row list"

datatype error = AnalysisException | AttributeError | TypeError

datatype write_mode = Overwrite | Append

record parquet =
  partitioned_by :: "string list"
  content :: table

text \<open>What the job does to the session and to the destination, in the order it does it.\<close>

datatype event =
    Registered string view
  | Queried string view
  | Written string write_mode "string list" table

text \<open>
  The session's temporary views, the files at the destination, and the log of the
  effects since the session was created.
\<close>

record world =
  views :: "string \<Rightarrow> view option"
  storage :: "string \<Rightarrow> parquet option"
  trace :: "event list"

subsection \<open>The dataframe engine\<close>

text \<open>\<^verbatim>\<open>spark.read.json(path)\<close>: the records at a path of the source bucket.\<close>

definition read_json :: "(string \<Rightarrow> json option) \<Rightarrow> string \<Rightarrow> error + json" where
  "read_json s3 path = (case s3 path of None \<Rightarrow> Inl AnalysisException | Some j \<Rightarrow> Inr j)"

text \<open>\<^verbatim>\<open>.distinct()\<close>: one copy of every row, compared on all its columns.\<close>

definition distinct_rows :: "'a list \<Rightarrow> 'a list" where
  "distinct_rows df = remdups df"

text \<open>Equality of two columns in a join condition: null equals nothing.\<close>

definition sql_eq :: "'a option \<Rightarrow> 'a option \<Rightarrow> bool" where
  "sql_eq a b = (case a of None \<Rightarrow> False | Some x \<Rightarrow> (case b of None \<Rightarrow> False | Some y \<Rightarrow> x = y))"

text \<open>\<^verbatim>\<open>df.join(other, cond, "inner")\<close>.\<close>

definition join_inner :: "'a list \<Rightarrow> 'b list \<Rightarrow> ('a \<Rightarrow> 'b \<Rightarrow> bool) \<Rightarrow> ('a \<times> 'b) list" where
  "join_inner df other cond = concat (map (\<lambda>a. map (Pair a) (filter (cond a) other)) df)"

text \<open>\<^verbatim>\<open>createOrReplaceTempView(name)\<close>.\<close>

definition createOrReplaceTempView :: "string \<Rightarrow> view \<Rightarrow> world \<Rightarrow> world" where
  "createOrReplaceTempView name v w =
     w\<lparr>views := (views w)(name \<mapsto> v), trace := trace w @ [Registered name v]\<rparr>"

text \<open>\<^verbatim>\<open>spark.sql("SELECT * FROM name")\<close>.\<close>

definition sql_select_all :: "string \<Rightarrow> world \<Rightarrow> error + (view \<times> world)" where
  "sql_select_all name w =
     (case views w name of
        None \<Rightarrow> Inl AnalysisException
      | Some v \<Rightarrow> Inr (v, w\<lparr>trace := trace w @ [Queried name v]\<rparr>))"

text \<open>Appending to a table of the same kind; a table of another kind is replaced.\<close>

fun append_table :: "table \<Rightarrow> table \<Rightarrow> table" where
  "append_table (SongsTable a) (SongsTable b) = SongsTable (a @ b)"
| "append_table (ArtistsTable a) (ArtistsTable b) = ArtistsTable (a @ b)"
| "append_table (UsersTable a) (UsersTable b) = UsersTable (a @ b)"
| "append_table (TimeTable a) (TimeTable b) = TimeTable (a @ b)"
| "append_table (SongplaysTable a) (SongplaysTable b) = SongplaysTable (a @ b)"
| "append_table a b = b"

text \<open>\<^verbatim>\<open>df.write.mode(m).partitionBy(cols).parquet(path)\<close>.\<close>

definition write_parquet ::
  "write_mode \<Rightarrow> string list \<Rightarrow> string \<Rightarrow> table \<Rightarrow> world \<Rightarrow> world" where
  "write_parquet m cols path t w =
     (let new = (case m of
                   Overwrite \<Rightarrow> \<lparr>partitioned_by = cols, content = t\<rparr>
                 | Append \<Rightarrow> (case storage w path of
                                None \<Rightarrow> \<lparr>partitioned_by = cols, content = t\<rparr>
                              | Some old \<Rightarrow> \<lparr>partitioned_by = cols,
                                              content = append_table (content old) t\<rparr>))
      in w\<lparr>storage := (storage w)(path \<mapsto> new), trace := trace w @ [Written path m cols t]\<rparr>)"

subsection \<open>Timestamps and calendar functions of the engine, session time zone UTC\<close>

text \<open>
  \<^verbatim>\<open>.cast('timestamp')\<close> of a number of seconds: the microseconds, truncated towards
  zero.
\<close>

definition cast_timestamp :: "rat \<Rightarrow> timestamp" where
  "cast_timestamp s = (if s < 0 then \<lceil>s * 1000000\<rceil> else \<lfloor>s * 1000000\<rfloor>)"

definition epoch_seconds :: "timestamp \<Rightarrow> int" where
  "epoch_seconds t = t div 1000000"

definition epoch_days :: "timestamp \<Rightarrow> int" where
  "epoch_days t = epoch_seconds t div 86400"

text \<open>The proleptic Gregorian date (year, month, day) of a day number since 1970-01-01.\<close>

definition civil_from_days :: "int \<Rightarrow> int \<times> int \<times> int" where
  "civil_from_days n =
     (let z = n + 719468;
          era = z div 146097;
          doe = z - era * 146097;
          yoe = (doe - doe div 1460 + doe div 36524 - doe div 146096) div 365;
          y = yoe + era * 400;
          doy = doe - (365 * yoe + yoe div 4 - yoe div 100);
          mp = (5 * doy + 2) div 153;
          d = doy - (153 * mp + 2) div 5 + 1;
          m = (if mp < 10 then mp + 3 else mp - 9)
      in (if m \<le> 2 then y + 1 else y, m, d))"

text \<open>The day number since 1970-01-01 of a proleptic Gregorian date.\<close>

definition days_from_civil :: "int \<Rightarrow> int \<Rightarrow> int \<Rightarrow> int" where
  "days_from_civil y m d =
     (let y' = (if m \<le> 2 then y - 1 else y);
          era = y' div 400;
          yoe = y' - era * 400;
          doy = (153 * (if m > 2 then m - 3 else m + 9) + 2) div 5 + d - 1;
          doe = yoe * 365 + yoe div 4 - yoe div 100 + doy
      in era * 146097 + doe - 719468)"

text \<open>The epoch second of a date and a time of day in UTC.\<close>

definition utc_seconds :: "int \<Rightarrow> int \<Rightarrow> int \<Rightarrow> int \<Rightarrow> int \<Rightarrow> int \<Rightarrow> int" where
  "utc_seconds y m d hh mm ss = days_from_civil y m d * 86400 + hh * 3600 + mm * 60 + ss"

definition sql_year :: "timestamp \<Rightarrow> int" where
  "sql_year t = fst (civil_from_days (epoch_days t))"

definition sql_month :: "timestamp \<Rightarrow> int" where
  "sql_month t = fst (snd (civil_from_days (epoch_days t)))"

definition sql_dayofmonth :: "timestamp \<Rightarrow> int" where
  "sql_dayofmonth t = snd (snd (civil_from_days (epoch_days t)))"

definition sql_hour :: "timestamp \<Rightarrow> int" where
  "sql_hour t = (epoch_seconds t mod 86400) div 3600"

text \<open>Day of the week, Monday = 1 to Sunday = 7 (1970-01-01 was a Thursday).\<close>

definition iso_weekday :: "int \<Rightarrow> int" where
  "iso_weekday n = (n + 3) mod 7 + 1"

text \<open>\<^verbatim>\<open>date_format(c, 'E')\<close>: the abbreviated name of the day of the week.\<close>

definition sql_date_format_E :: "timestamp \<Rightarrow> string" where
  "sql_date_format_E t =
     (let wd = iso_weekday (epoch_days t)
      in if wd = 1 then ''Mon'' else if wd = 2 then ''Tue'' else if wd = 3 then ''Wed''
         else if wd = 4 then ''Thu'' else if wd = 5 then ''Fri'' else if wd = 6 then ''Sat''
         else ''Sun'')"

text \<open>The number of ISO 8601 weeks of a year: 53 or 52.\<close>

definition iso_weeks_in_year :: "int \<Rightarrow> int" where
  "iso_weeks_in_year y =
     (let p = (\<lambda>k. (k + k div 4 - k div 100 + k div 400) mod 7)
      in if p y = 4 \<or> p (y - 1) = 3 then 53 else 52)"

text \<open>\<^verbatim>\<open>weekofyear\<close>: the ISO 8601 week number.\<close>

definition sql_weekofyear :: "timestamp \<Rightarrow> int" where
  "sql_weekofyear t =
     (let n = epoch_days t;
          y = fst (civil_from_days n);
          doy = n - days_from_civil y 1 1 + 1;
          wk = (doy - iso_weekday n + 10) div 7
      in if wk < 1 then iso_weeks_in_year (y - 1)
         else if wk > iso_weeks_in_year y then 1
         else wk)"

subsection \<open>The song pipeline: process_song_data\<close>

text \<open>Line 73.\<close>

definition songs_table :: "song_rec list \<Rightarrow> songs_row list" where
  "songs_table df =
     distinct_rows (map (\<lambda>r. (song_id r, title r, artist_id r, song_rec.year r, duration r)) df)"

text \<open>Line 76, the rows registered as \<^verbatim>\<open>songs_table_view\<close>.\<close>

definition songs_table_view :: "song_rec list \<Rightarrow> view_row list" where
  "songs_table_view df =
     distinct_rows (map (\<lambda>r. (song_id r, title r, artist_id r, song_rec.year r, duration r,
                              artist_name r)) df)"

text \<open>Lines 83 and 84.\<close>

definition artists_table :: "song_rec list \<Rightarrow> artists_row list" where
  "artists_table df =
     distinct_rows (map (\<lambda>r. (artist_id r, artist_name r, artist_location r, artist_latitude r,
                              artist_longitude r)) df)"

text \<open>
  Lines 63 to 87. Reading a path that holds nothing raises; selecting the song columns
  from records without them raises.
\<close>

definition process_song_data ::
  "(string \<Rightarrow> json option) \<Rightarrow> string \<Rightarrow> string \<Rightarrow> world \<Rightarrow> error option \<times> world" where
  "process_song_data s3 input_data output_data w =
     (let song_data = input_data @ ''song_data/*/*/*/*.json'';
          log_data = input_data @ ''log_data/*/*/*.json''
      in case read_json s3 song_data of
           Inl e \<Rightarrow> (Some e, w)
         | Inr (LogJson other) \<Rightarrow> (Some AnalysisException, w)
         | Inr (SongJson df) \<Rightarrow>
             (let songs = songs_table df;
                  w1 = createOrReplaceTempView ''songs_table_view''
                         (SongsView (songs_table_view df)) w;
                  w2 = write_parquet Overwrite [''year'', ''artist_id'']
                         (output_data @ ''songs'') (SongsTable songs) w1;
                  artists = artists_table df;
                  w3 = write_parquet Overwrite [] (output_data @ ''artists'')
                         (ArtistsTable artists) w2
              in (None, w3)))"

subsection \<open>The log pipeline: process_log_data\<close>

text \<open>Lines 124 to 128.\<close>

definition users_table :: "log_rec list \<Rightarrow> users_row list" where
  "users_table df =
     distinct_rows (map (\<lambda>r. (userId r, firstName r, lastName r, gender r, level r)) df)"

text \<open>
  Lines 134 to 139 define two more columns, \<^verbatim>\<open>timestamp\<close> and a first
  \<^verbatim>\<open>start_time\<close>, by Python functions applied lazily. No action runs between
  their definition and line 143, no table selects them (line 143 is meant to replace the
  second), and both are functions of \<^verbatim>\<open>ts\<close>, so they do not change which rows
  \<^verbatim>\<open>distinct\<close> keeps: the rows of the model do not carry them.
\<close>

text \<open>The Python values that line 143 handles: a string literal and a column expression.\<close>

datatype pyobj = PyStr string | PyColumn "log_rec \<Rightarrow> rat option"

text \<open>Calling a value: neither a \<^verbatim>\<open>str\<close> nor a \<^verbatim>\<open>Column\<close> is callable.\<close>

fun py_call :: "pyobj \<Rightarrow> pyobj list \<Rightarrow> error + pyobj" where
  "py_call (PyStr s) args = Inl TypeError"
| "py_call (PyColumn c) args = Inl TypeError"

text \<open>\<^verbatim>\<open>df['ts']/1000\<close>.\<close>

definition ts_div_1000 :: "log_rec \<Rightarrow> rat option" where
  "ts_div_1000 r = map_option (\<lambda>t. rat_of_int t / 1000) (ts r)"

text \<open>
  The argument of \<^verbatim>\<open>withColumn\<close> on line 143, as written:
  \<^verbatim>\<open>'start_time'(df['ts']/1000).cast('timestamp')\<close>. The literal
  \<^verbatim>\<open>'start_time'\<close> is called with the column \<^verbatim>\<open>df['ts']/1000\<close>. Had the call
  returned, \<^verbatim>\<open>withColumn\<close> would have received one argument instead of two, which
  raises the same error.
\<close>

definition line_143 :: "error + (log_rec \<Rightarrow> timestamp option)" where
  "line_143 =
     (case py_call (PyStr ''start_time'') [PyColumn ts_div_1000] of
        Inl e \<Rightarrow> Inl e
      | Inr called \<Rightarrow> Inl TypeError)"

text \<open>
  The column that the pieces of line 143 denote once the name and the expression are two
  arguments: \<^verbatim>\<open>(df['ts']/1000).cast('timestamp')\<close>.
\<close>

definition ts_cast_timestamp :: "log_rec \<Rightarrow> timestamp option" where
  "ts_cast_timestamp r = map_option cast_timestamp (ts_div_1000 r)"

text \<open>Lines 143 to 149 for one row, given the column \<open>c\<close> that becomes \<^verbatim>\<open>start_time\<close>.\<close>

definition with_time_columns :: "(log_rec \<Rightarrow> timestamp option) \<Rightarrow> log_rec \<Rightarrow> log_row" where
  "with_time_columns c r =
     (let st = c r
      in \<lparr>ev = r,
          start_time = st,
          year = map_option sql_year st,
          month = map_option sql_month st,
          week = map_option sql_weekofyear st,
          weekday = map_option sql_date_format_E st,
          day = map_option sql_dayofmonth st,
          hour = map_option sql_hour st\<rparr>)"

text \<open>Lines 151 and 152.\<close>

definition time_table :: "log_row list \<Rightarrow> time_row list" where
  "time_table df =
     distinct_rows (map (\<lambda>d. (start_time d, hour d, day d, week d, weekday d, log_row.year d,
                              month d)) df)"

text \<open>The join condition of lines 165 to 167.\<close>

definition join_condition :: "log_row \<Rightarrow> view_row \<Rightarrow> bool" where
  "join_condition d s =
     (case s of (v_song_id, v_title, v_artist_id, v_year, v_duration, v_artist_name) \<Rightarrow>
        sql_eq (song (ev d)) v_title
        \<and> sql_eq (artist (ev d)) v_artist_name
        \<and> sql_eq (length_col (ev d)) v_duration)"

text \<open>Lines 165 to 168: the inner join, then \<^verbatim>\<open>distinct\<close> on all columns of both sides.\<close>

definition songplays_joined :: "log_row list \<Rightarrow> view_row list \<Rightarrow> (log_row \<times> view_row) list" where
  "songplays_joined df song_df = distinct_rows (join_inner df song_df join_condition)"

text \<open>Lines 169 to 172 for one joined row and the identifier the engine gives it.\<close>

definition songplays_select :: "log_row \<times> view_row \<Rightarrow> int \<Rightarrow> songplays_row" where
  "songplays_select p i =
     (case p of (d, (v_song_id, v_title, v_artist_id, v_year, v_duration, v_artist_name)) \<Rightarrow>
        (start_time d, userId (ev d), level (ev d), v_song_id, v_artist_id, sessionId (ev d),
         location (ev d), userAgent (ev d), log_row.year d, month d, i))"

text \<open>
  Lines 165 to 172. \<^verbatim>\<open>monotonically_increasing_id()\<close> is the engine's choice: \<open>ids k\<close>
  is the identifier it gives to the row at position \<open>k\<close>.
\<close>

definition songplays_table ::
  "(nat \<Rightarrow> int) \<Rightarrow> log_row list \<Rightarrow> view_row list \<Rightarrow> songplays_row list" where
  "songplays_table ids df song_df =
     map (\<lambda>(k, p). songplays_select p (ids k)) (enumerate 0 (songplays_joined df song_df))"

text \<open>
  Lines 110 to 176, with the value of the argument of line 143 as the parameter
  \<open>col143\<close>: an error, or the column that becomes \<^verbatim>\<open>start_time\<close>. The local name
  \<open>artists_table\<close> of line 121 is bound as the source binds it.
\<close>

definition process_log_data_with ::
  "error + (log_rec \<Rightarrow> timestamp option) \<Rightarrow> (nat \<Rightarrow> int) \<Rightarrow> (string \<Rightarrow> json option)
     \<Rightarrow> string \<Rightarrow> string \<Rightarrow> world \<Rightarrow> error option \<times> world" where
  "process_log_data_with col143 ids s3 input_data output_data w =
     (let log_data = input_data @ ''log_data/*/*/*.json''
      in case read_json s3 log_data of
           Inl e \<Rightarrow> (Some e, w)
         | Inr (SongJson other) \<Rightarrow> (Some AttributeError, w)
         | Inr (LogJson df0) \<Rightarrow>
             (let df = filter (\<lambda>r. page r = Some ''NextSong'') df0;
                  artists_table =
                    distinct_rows
                      (map (\<lambda>r. (userId r, firstName r, lastName r, gender r, level r)) df);
                  users = users_table df;
                  w1 = write_parquet Overwrite [] (output_data @ ''users'') (UsersTable users) w
              in case col143 of
                   Inl e \<Rightarrow> (Some e, w1)
                 | Inr c \<Rightarrow>
                     (let df1 = map (with_time_columns c) df;
                          w2 = createOrReplaceTempView ''log_view'' (LogView df1) w1;
                          w3 = write_parquet Overwrite [''year'', ''month'']
                                 (output_data @ ''time'') (TimeTable (time_table df1)) w2
                      in case sql_select_all ''songs_table_view'' w3 of
                           Inl e \<Rightarrow> (Some e, w3)
                         | Inr (LogView other, w4) \<Rightarrow> (Some AttributeError, w4)
                         | Inr (SongsView song_df, w4) \<Rightarrow>
                             (None,
                              write_parquet Overwrite [''year'', ''month'']
                                (output_data @ ''songplays'')
                                (SongplaysTable (songplays_table ids df1 song_df)) w4))))"



subsection \<open>The job: main\<close>

text \<open>Line 196: a new session has no temporary view; the destination is as it was left.\<close>

definition create_spark_session :: "(string \<Rightarrow> parquet option) \<Rightarrow> world" where
  "create_spark_session files = \<lparr>views = Map.empty, storage = files, trace = []\<rparr>"

text \<open>Lines 196 to 201: an error of the song pipeline ends the job.\<close>

definition main_with ::
  "error + (log_rec \<Rightarrow> timestamp option) \<Rightarrow> (nat \<Rightarrow> int) \<Rightarrow> (string \<Rightarrow> json option)
     \<Rightarrow> (string \<Rightarrow> parquet option) \<Rightarrow> error option \<times> world" where
  "main_with col143 ids s3 files =
     (let spark = create_spark_session files;
          input_data = ''s3a://udacity-dend/'';
          output_data = ''s3a://aws-logs-datalake-project-2022-us-west-2/''
      in case process_song_data s3 input_data output_data spark of
           (Some e, w) \<Rightarrow> (Some e, w)
         | (None, w) \<Rightarrow> process_log_data_with col143 ids s3 input_data output_data w)"

definition main :: "(nat \<Rightarrow> int) \<Rightarrow> (string \<Rightarrow> json option) \<Rightarrow> (string \<Rightarrow> parquet option)
     \<Rightarrow> error option \<times> world" where
  "main = main_with line_143"

subsection \<open>Example inputs\<close>

text \<open>The two records of the end-to-end example; the columns it leaves out are null.\<close>

definition example_log_rec :: log_rec where
  "example_log_rec =
     \<lparr>artist = Some ''Y'', auth = None, firstName = None, gender = None, itemInSession = None,
      lastName = None, length_col = Some (21 / 2), level = None, location = None,
      method_col = None, page = Some ''NextSong'', registration = None, sessionId = None,
      song = Some ''X'', status = None, ts = Some 1541105830796, userAgent = None,
      userId = Some ''10''\<rparr>"

definition example_song_rec :: song_rec where
  "example_song_rec =
     \<lparr>num_songs = None, artist_id = Some ''A1'', artist_latitude = None,
      artist_longitude = None, artist_location = None, artist_name = Some ''Y'',
      song_id = Some ''S1'', title = Some ''X'', duration = Some (21 / 2),
      song_rec.year = Some 2000\<rparr>"

text \<open>A source bucket that holds exactly these two records.\<close>

definition example_s3 :: "string \<Rightarrow> json option" where
  "example_s3 =
     [''s3a://udacity-dend/song_data/*/*/*/*.json'' \<mapsto> SongJson [example_song_rec],
      ''s3a://udacity-dend/log_data/*/*/*.json'' \<mapsto> LogJson [example_log_rec]]"

text \<open>Two songs of one artist whose name is spelled in two ways.\<close>

definition two_names :: "song_rec list" where
  "two_names =
     [\<lparr>num_songs = Some 1, artist_id = Some ''A1'', artist_latitude = None,
       artist_longitude = None, artist_location = None, artist_name = Some ''Y'',
       song_id = Some ''S1'', title = Some ''X'', duration = Some (21 / 2),
       song_rec.year = Some 2000\<rparr>,
      \<lparr>num_songs = Some 1, artist_id = Some ''A1'', artist_latitude = None,
       artist_longitude = None, artist_location = None, artist_name = Some ''Y feat. Z'',
       song_id = Some ''S2'', title = Some ''W'', duration = Some 200,
       song_rec.year = Some 2001\<rparr>]"

subsection \<open>Auxiliary notions for stating the properties\<close>

text \<open>A songplays row with its synthetic identifier set to 0.\<close>

definition forget_id_row :: "songplays_row \<Rightarrow> songplays_row" where
  "forget_id_row r =
     (case r of (st, uid, lvl, sid, aid, ses, loc, ua, y, m, i) \<Rightarrow>
        (st, uid, lvl, sid, aid, ses, loc, ua, y, m, 0))"

text \<open>A table with the synthetic identifiers of its songplays rows set to 0.\<close>

fun forget_songplay_id :: "table \<Rightarrow> table" where
  "forget_songplay_id (SongplaysTable rows) = SongplaysTable (map forget_id_row rows)"
| "forget_songplay_id t = t"

text \<open>Whether an effect registers the temporary view of a given name.\<close>

fun registers :: "string \<Rightarrow> event \<Rightarrow> bool" where
  "registers n (Registered m v) = (m = n)"
| "registers n (Queried m v) = False"
| "registers n (Written p m cols t) = False"

section \<open>Properties\<close>

subsection \<open>Basic facts about the engine\<close>

lemma distinct_rows_set [simp]: "set (distinct_rows xs) = set xs"
  by (simp add: distinct_rows_def)

lemma distinct_distinct_rows [simp]: "distinct (distinct_rows xs)"
  by (simp add: distinct_rows_def)

lemma civil_17836: "civil_from_days 17836 = (2018, 11, 1)"
  by code_simp

lemma epoch_days_example: "epoch_days 1541105830796000 = 17836"
  by (simp add: epoch_days_def epoch_seconds_def)

lemma epoch_seconds_example: "epoch_seconds 1541105830796000 = 1541105830"
  by (simp add: epoch_seconds_def)


lemma utc_21_37_10: "utc_seconds 2018 11 1 21 37 10 = 1541108230"
  by code_simp

lemma ts_cast_example:
  "ts e = Some 1541105830796 \<Longrightarrow> ts_cast_timestamp e = Some 1541105830796000"
  by (simp add: ts_cast_timestamp_def ts_div_1000_def cast_timestamp_def)

lemma artists_table_row:
  "a \<in> set (artists_table df) \<Longrightarrow>
     \<exists>r\<in>set df. a = (artist_id r, artist_name r, artist_location r, artist_latitude r,
                       artist_longitude r)"
  unfolding artists_table_def distinct_rows_set set_map image_iff .

subsection \<open>The log pipeline stops at line 143\<close>



subsection \<open>Time derivation\<close>




subsection \<open>The artists table\<close>

text \<open>
  C6, as the spec states it: no two rows of the artists table share an artist_id. This is
  false: \<^verbatim>\<open>distinct\<close> compares whole rows, and two songs that spell the name of one
  artist in two ways give two rows with one artist_id.
\<close>

theorem artist_id_unique_counterexample:
  "\<not> distinct (map fst (artists_table two_names))"
  by (simp add: artists_table_def two_names_def distinct_rows_def)

text \<open>
  C6, amended: no two rows of the artists table are equal in all five columns; and
  artist_id is unique in the table when the song records that share an artist_id also
  share the artist's name, location, latitude and longitude.
\<close>

theorem artists_table_rows_unique:
  "distinct (artists_table df) \<and>
   ((\<forall>r\<in>set df. \<forall>r'\<in>set df. artist_id r = artist_id r' \<longrightarrow>
       artist_name r = artist_name r' \<and> artist_location r = artist_location r'
       \<and> artist_latitude r = artist_latitude r' \<and> artist_longitude r = artist_longitude r')
    \<longrightarrow> distinct (map fst (artists_table df)))"
proof (intro conjI impI)
  show d: "distinct (artists_table df)"
    by (simp add: artists_table_def)
  assume same: "\<forall>r\<in>set df. \<forall>r'\<in>set df. artist_id r = artist_id r' \<longrightarrow>
       artist_name r = artist_name r' \<and> artist_location r = artist_location r'
       \<and> artist_latitude r = artist_latitude r' \<and> artist_longitude r = artist_longitude r'"
  have "inj_on fst (set (artists_table df))"
  proof (rule inj_onI)
    fix a b
    assume a: "a \<in> set (artists_table df)" and b: "b \<in> set (artists_table df)"
      and eq: "fst a = fst b"
    from artists_table_row [OF a] obtain r where r: "r \<in> set df"
      "a = (artist_id r, artist_name r, artist_location r, artist_latitude r, artist_longitude r)"
      by blast
    from artists_table_row [OF b] obtain r' where r': "r' \<in> set df"
      "b = (artist_id r', artist_name r', artist_location r', artist_latitude r',
            artist_longitude r')"
      by blast
    from eq r(2) r'(2) have id: "artist_id r = artist_id r'" by simp
    from same r(1) r'(1) id
    have "artist_name r = artist_name r' \<and> artist_location r = artist_location r'
       \<and> artist_latitude r = artist_latitude r' \<and> artist_longitude r = artist_longitude r'"
      by blast
    with id show "a = b" unfolding r(2) r'(2) by simp
  qed
  with d show "distinct (map fst (artists_table df))"
    by (simp add: distinct_map)
qed

theorem artists_table_rows_unique_witness:
  "distinct (artists_table [example_song_rec, example_song_rec])
   \<and> artists_table [example_song_rec, example_song_rec] = [(Some ''A1'', Some ''Y'', None, None, None)]
   \<and> distinct (map fst (artists_table [example_song_rec, example_song_rec]))"
  using artists_table_rows_unique [of "[example_song_rec, example_song_rec]"]
  by (simp add: artists_table_def distinct_rows_def example_song_rec_def)

subsection \<open>Effects of the engine operations\<close>

lemma trace_write [simp]:
  "trace (write_parquet m cols path t w) = trace w @ [Written path m cols t]"
  by (simp add: write_parquet_def Let_def)

lemma views_write [simp]: "views (write_parquet m cols path t w) = views w"
  by (simp add: write_parquet_def Let_def)

lemma storage_overwrite [simp]:
  "storage (write_parquet Overwrite cols path t w) =
     (storage w)(path \<mapsto> \<lparr>partitioned_by = cols, content = t\<rparr>)"
  by (simp add: write_parquet_def)

lemma trace_register [simp]:
  "trace (createOrReplaceTempView name v w) = trace w @ [Registered name v]"
  by (simp add: createOrReplaceTempView_def)

lemma views_register [simp]:
  "views (createOrReplaceTempView name v w) = (views w)(name \<mapsto> v)"
  by (simp add: createOrReplaceTempView_def)

lemma storage_register [simp]: "storage (createOrReplaceTempView name v w) = storage w"
  by (simp add: createOrReplaceTempView_def)

subsection \<open>The four outcomes of the job\<close>

text \<open>
  The job ends in one of four ways: the song records cannot be read; the log records
  cannot be read; line 143 raises; or every statement runs. In each case the effects and
  the files at the destination are known.
\<close>

lemma main_with_song_unreadable:
  assumes "\<forall>df. s3 ''s3a://udacity-dend/song_data/*/*/*/*.json'' \<noteq> Some (SongJson df)"
  shows "fst (main_with col143 ids s3 files) \<noteq> None"
    and "snd (main_with col143 ids s3 files) = create_spark_session files"
  using assms
  by (simp_all add: main_with_def process_song_data_def read_json_def Let_def
      split: option.splits json.splits)

lemma main_with_log_unreadable:
  assumes "s3 ''s3a://udacity-dend/song_data/*/*/*/*.json'' = Some (SongJson songs)"
    and "\<forall>df. s3 ''s3a://udacity-dend/log_data/*/*/*.json'' \<noteq> Some (LogJson df)"
  shows "fst (main_with col143 ids s3 files) \<noteq> None"
    and "trace (snd (main_with col143 ids s3 files)) =
               [Registered ''songs_table_view'' (SongsView (songs_table_view songs)),
                Written ''s3a://aws-logs-datalake-project-2022-us-west-2/songs'' Overwrite
                  [''year'', ''artist_id''] (SongsTable (songs_table songs)),
                Written ''s3a://aws-logs-datalake-project-2022-us-west-2/artists'' Overwrite []
                  (ArtistsTable (artists_table songs))]"
    and "storage (snd (main_with col143 ids s3 files)) = files
               (''s3a://aws-logs-datalake-project-2022-us-west-2/songs'' \<mapsto>
                  \<lparr>partitioned_by = [''year'', ''artist_id''],
                   content = SongsTable (songs_table songs)\<rparr>,
                ''s3a://aws-logs-datalake-project-2022-us-west-2/artists'' \<mapsto>
                  \<lparr>partitioned_by = [], content = ArtistsTable (artists_table songs)\<rparr>)"
  using assms
  by (simp_all add: main_with_def process_song_data_def process_log_data_with_def read_json_def
      create_spark_session_def Let_def split: option.splits json.splits)

lemma main_with_Inl:
  assumes "s3 ''s3a://udacity-dend/song_data/*/*/*/*.json'' = Some (SongJson songs)"
    and "s3 ''s3a://udacity-dend/log_data/*/*/*.json'' = Some (LogJson events)"
  shows "fst (main_with (Inl e) ids s3 files) = Some e"
    and "trace (snd (main_with (Inl e) ids s3 files)) =
               [Registered ''songs_table_view'' (SongsView (songs_table_view songs)),
                Written ''s3a://aws-logs-datalake-project-2022-us-west-2/songs'' Overwrite
                  [''year'', ''artist_id''] (SongsTable (songs_table songs)),
                Written ''s3a://aws-logs-datalake-project-2022-us-west-2/artists'' Overwrite []
                  (ArtistsTable (artists_table songs)),
                Written ''s3a://aws-logs-datalake-project-2022-us-west-2/users'' Overwrite []
                  (UsersTable (users_table (filter (\<lambda>r. page r = Some ''NextSong'') events)))]"
    and "storage (snd (main_with (Inl e) ids s3 files)) = files
               (''s3a://aws-logs-datalake-project-2022-us-west-2/songs'' \<mapsto>
                  \<lparr>partitioned_by = [''year'', ''artist_id''],
                   content = SongsTable (songs_table songs)\<rparr>,
                ''s3a://aws-logs-datalake-project-2022-us-west-2/artists'' \<mapsto>
                  \<lparr>partitioned_by = [], content = ArtistsTable (artists_table songs)\<rparr>,
                ''s3a://aws-logs-datalake-project-2022-us-west-2/users'' \<mapsto>
                  \<lparr>partitioned_by = [],
                   content = UsersTable
                     (users_table (filter (\<lambda>r. page r = Some ''NextSong'') events))\<rparr>)"
  using assms
  by (simp_all add: main_with_def process_song_data_def process_log_data_with_def read_json_def
      create_spark_session_def Let_def)

lemma main_with_Inr:
  assumes "s3 ''s3a://udacity-dend/song_data/*/*/*/*.json'' = Some (SongJson songs)"
    and "s3 ''s3a://udacity-dend/log_data/*/*/*.json'' = Some (LogJson events)"
  shows "fst (main_with (Inr c) ids s3 files) = None"
    and "trace (snd (main_with (Inr c) ids s3 files)) =
               [Registered ''songs_table_view'' (SongsView (songs_table_view songs)),
                Written ''s3a://aws-logs-datalake-project-2022-us-west-2/songs'' Overwrite
                  [''year'', ''artist_id''] (SongsTable (songs_table songs)),
                Written ''s3a://aws-logs-datalake-project-2022-us-west-2/artists'' Overwrite []
                  (ArtistsTable (artists_table songs)),
                Written ''s3a://aws-logs-datalake-project-2022-us-west-2/users'' Overwrite []
                  (UsersTable (users_table (filter (\<lambda>r. page r = Some ''NextSong'') events))),
                Registered ''log_view''
                  (LogView (map (with_time_columns c)
                              (filter (\<lambda>r. page r = Some ''NextSong'') events))),
                Written ''s3a://aws-logs-datalake-project-2022-us-west-2/time'' Overwrite
                  [''year'', ''month'']
                  (TimeTable (time_table (map (with_time_columns c)
                              (filter (\<lambda>r. page r = Some ''NextSong'') events)))),
                Queried ''songs_table_view'' (SongsView (songs_table_view songs)),
                Written ''s3a://aws-logs-datalake-project-2022-us-west-2/songplays'' Overwrite
                  [''year'', ''month'']
                  (SongplaysTable
                     (songplays_table ids
                        (map (with_time_columns c)
                           (filter (\<lambda>r. page r = Some ''NextSong'') events))
                        (songs_table_view songs)))]"
    and "storage (snd (main_with (Inr c) ids s3 files)) = files
               (''s3a://aws-logs-datalake-project-2022-us-west-2/songs'' \<mapsto>
                  \<lparr>partitioned_by = [''year'', ''artist_id''],
                   content = SongsTable (songs_table songs)\<rparr>,
                ''s3a://aws-logs-datalake-project-2022-us-west-2/artists'' \<mapsto>
                  \<lparr>partitioned_by = [], content = ArtistsTable (artists_table songs)\<rparr>,
                ''s3a://aws-logs-datalake-project-2022-us-west-2/users'' \<mapsto>
                  \<lparr>partitioned_by = [],
                   content = UsersTable
                     (users_table (filter (\<lambda>r. page r = Some ''NextSong'') events))\<rparr>,
                ''s3a://aws-logs-datalake-project-2022-us-west-2/time'' \<mapsto>
                  \<lparr>partitioned_by = [''year'', ''month''],
                   content = TimeTable (time_table (map (with_time_columns c)
                              (filter (\<lambda>r. page r = Some ''NextSong'') events)))\<rparr>,
                ''s3a://aws-logs-datalake-project-2022-us-west-2/songplays'' \<mapsto>
                  \<lparr>partitioned_by = [''year'', ''month''],
                   content = SongplaysTable
                     (songplays_table ids
                        (map (with_time_columns c)
                           (filter (\<lambda>r. page r = Some ''NextSong'') events))
                        (songs_table_view songs))\<rparr>)"
  using assms
  by (simp_all add: main_with_def process_song_data_def process_log_data_with_def read_json_def
      sql_select_all_def create_spark_session_def Let_def)

lemma main_with_cases:
  obtains
    (song_unreadable)
      "\<forall>df. s3 ''s3a://udacity-dend/song_data/*/*/*/*.json'' \<noteq> Some (SongJson df)"
  | (log_unreadable) songs where
      "s3 ''s3a://udacity-dend/song_data/*/*/*/*.json'' = Some (SongJson songs)"
      "\<forall>df. s3 ''s3a://udacity-dend/log_data/*/*/*.json'' \<noteq> Some (LogJson df)"
  | (failed) songs events e where
      "s3 ''s3a://udacity-dend/song_data/*/*/*/*.json'' = Some (SongJson songs)"
      "s3 ''s3a://udacity-dend/log_data/*/*/*.json'' = Some (LogJson events)"
      "col143 = Inl e"
  | (succeeded) songs events c where
      "s3 ''s3a://udacity-dend/song_data/*/*/*/*.json'' = Some (SongJson songs)"
      "s3 ''s3a://udacity-dend/log_data/*/*/*.json'' = Some (LogJson events)"
      "col143 = Inr c"
proof (cases "\<exists>songs. s3 ''s3a://udacity-dend/song_data/*/*/*/*.json'' = Some (SongJson songs)")
  case False
  then show ?thesis using song_unreadable by blast
next
  case True
  then obtain songs where s: "s3 ''s3a://udacity-dend/song_data/*/*/*/*.json'' = Some (SongJson songs)"
    by blast
  show ?thesis
  proof (cases "\<exists>events. s3 ''s3a://udacity-dend/log_data/*/*/*.json'' = Some (LogJson events)")
    case False
    then show ?thesis using log_unreadable [OF s] by blast
  next
    case True
    then obtain events where l: "s3 ''s3a://udacity-dend/log_data/*/*/*.json'' = Some (LogJson events)"
      by blast
    show ?thesis
    proof (cases col143)
      case (Inl e)
      then show ?thesis using failed [OF s l] by blast
    next
      case (Inr c)
      then show ?thesis using succeeded [OF s l] by blast
    qed
  qed
qed

subsection \<open>Rows of the join\<close>









subsection \<open>The example run\<close>

text \<open>
  The job on the example bucket, with line 143 taken as
  \<^verbatim>\<open>(df['ts']/1000).cast('timestamp')\<close>.
\<close>

lemma example_s3_songs:
  "example_s3 ''s3a://udacity-dend/song_data/*/*/*/*.json'' = Some (SongJson [example_song_rec])"
  by (simp add: example_s3_def)

lemma example_s3_logs:
  "example_s3 ''s3a://udacity-dend/log_data/*/*/*.json'' = Some (LogJson [example_log_rec])"
  by (simp add: example_s3_def)

lemma example_page: "page example_log_rec = Some ''NextSong''"
  by (simp add: example_log_rec_def)

lemma example_songs_table:
  "songs_table [example_song_rec] = [(Some ''S1'', Some ''X'', Some ''A1'', Some 2000, Some (21 / 2))]"
  by (simp add: songs_table_def distinct_rows_def example_song_rec_def)

lemma example_songs_table_view:
  "songs_table_view [example_song_rec] =
     [(Some ''S1'', Some ''X'', Some ''A1'', Some 2000, Some (21 / 2), Some ''Y'')]"
  by (simp add: songs_table_view_def distinct_rows_def example_song_rec_def)

lemma example_artists_table:
  "artists_table [example_song_rec] = [(Some ''A1'', Some ''Y'', None, None, None)]"
  by (simp add: artists_table_def distinct_rows_def example_song_rec_def)

lemma example_users_table:
  "users_table [example_log_rec] = [(Some ''10'', None, None, None, None)]"
  by (simp add: users_table_def distinct_rows_def example_log_rec_def)

lemma example_songplays_table:
  "songplays_table ids [with_time_columns ts_cast_timestamp example_log_rec]
     [(Some ''S1'', Some ''X'', Some ''A1'', Some 2000, Some (21 / 2), Some ''Y'')] =
   [(Some 1541105830796000, Some ''10'', None, Some ''S1'', Some ''A1'', None, None, None,
     Some 2018, Some 11, ids 0)]"
proof -
  have st: "ts_cast_timestamp example_log_rec = Some 1541105830796000"
    by (rule ts_cast_example) (simp add: example_log_rec_def)
  have j: "join_condition (with_time_columns ts_cast_timestamp example_log_rec)
             (Some ''S1'', Some ''X'', Some ''A1'', Some 2000, Some (21 / 2), Some ''Y'')"
    by (simp add: join_condition_def with_time_columns_def Let_def sql_eq_def example_log_rec_def)
  have f: "userId example_log_rec = Some ''10''" "level example_log_rec = None"
    "sessionId example_log_rec = None" "location example_log_rec = None"
    "userAgent example_log_rec = None"
    by (simp_all add: example_log_rec_def)
  show ?thesis
    by (simp add: songplays_table_def songplays_joined_def join_inner_def j distinct_rows_def
        enumerate_eq_zip songplays_select_def)
      (simp add: with_time_columns_def Let_def st f sql_year_def sql_month_def
        epoch_days_example civil_17836)
qed

lemma example_week: "sql_weekofyear 1541105830796000 = 44"
  by code_simp

lemma example_weekday: "sql_date_format_E 1541105830796000 = ''Thu''"
  by code_simp

lemma example_time_table:
  "time_table [with_time_columns ts_cast_timestamp example_log_rec] =
     [(Some 1541105830796000, Some 20, Some 1, Some 44, Some ''Thu'', Some 2018, Some 11)]"
proof -
  have st: "ts_cast_timestamp example_log_rec = Some 1541105830796000"
    by (rule ts_cast_example) (simp add: example_log_rec_def)
  show ?thesis
    by (simp add: time_table_def distinct_rows_def with_time_columns_def Let_def st
        sql_year_def sql_month_def sql_dayofmonth_def sql_hour_def epoch_days_example
        epoch_seconds_example civil_17836 example_week example_weekday)
qed

lemma example_run_trace:
  "trace (snd (main_with (Inr ts_cast_timestamp) (\<lambda>k. int k) example_s3 Map.empty)) =
     [Registered ''songs_table_view''
        (SongsView [(Some ''S1'', Some ''X'', Some ''A1'', Some 2000, Some (21 / 2), Some ''Y'')]),
      Written ''s3a://aws-logs-datalake-project-2022-us-west-2/songs'' Overwrite
        [''year'', ''artist_id'']
        (SongsTable [(Some ''S1'', Some ''X'', Some ''A1'', Some 2000, Some (21 / 2))]),
      Written ''s3a://aws-logs-datalake-project-2022-us-west-2/artists'' Overwrite []
        (ArtistsTable [(Some ''A1'', Some ''Y'', None, None, None)]),
      Written ''s3a://aws-logs-datalake-project-2022-us-west-2/users'' Overwrite []
        (UsersTable [(Some ''10'', None, None, None, None)]),
      Registered ''log_view'' (LogView [with_time_columns ts_cast_timestamp example_log_rec]),
      Written ''s3a://aws-logs-datalake-project-2022-us-west-2/time'' Overwrite
        [''year'', ''month'']
        (TimeTable [(Some 1541105830796000, Some 20, Some 1, Some 44, Some ''Thu'', Some 2018,
                     Some 11)]),
      Queried ''songs_table_view''
        (SongsView [(Some ''S1'', Some ''X'', Some ''A1'', Some 2000, Some (21 / 2), Some ''Y'')]),
      Written ''s3a://aws-logs-datalake-project-2022-us-west-2/songplays'' Overwrite
        [''year'', ''month'']
        (SongplaysTable
           [(Some 1541105830796000, Some ''10'', None, Some ''S1'', Some ''A1'', None, None,
             None, Some 2018, Some 11, 0)])]"
  unfolding main_with_Inr(2) [where ?s3.0 = example_s3, OF example_s3_songs example_s3_logs]
  by (simp add: example_page example_songs_table example_songs_table_view
      example_artists_table example_users_table example_time_table example_songplays_table)

lemma example_run_ok:
  "fst (main_with (Inr ts_cast_timestamp) (\<lambda>k. int k) example_s3 Map.empty) = None"
  by (rule main_with_Inr(1) [where ?s3.0 = example_s3, OF example_s3_songs example_s3_logs])

lemma map_enumerate_snd: "map (\<lambda>(k, p). f p) (enumerate n xs) = map f xs"
  by (induction xs arbitrary: n) simp_all

lemma forget_id_row_select: "forget_id_row (songplays_select p i) = songplays_select p 0"
  by (cases p) (simp add: forget_id_row_def songplays_select_def split: prod.splits)

lemma forget_songplays_table:
  "map forget_id_row (songplays_table ids df v)
     = map (\<lambda>p. songplays_select p 0) (songplays_joined df v)"
proof -
  have "map forget_id_row (songplays_table ids df v)
          = map (\<lambda>(k, p). songplays_select p 0) (enumerate 0 (songplays_joined df v))"
    unfolding songplays_table_def map_map
    by (rule map_cong [OF refl]) (clarsimp simp: forget_id_row_select)
  then show ?thesis
    by (simp add: map_enumerate_snd)
qed

subsection \<open>Join exactness\<close>



subsection \<open>References from songplays to songs and artists\<close>



subsection \<open>The end-to-end example on the code as written\<close>

text \<open>
  C5. On the example bucket and an empty destination, the job as written ends with the
  \<open>TypeError\<close> of line 143 after writing songs, artists and users: there is no
  songplays table, hence no row with song_id S1. (Lemma \<open>example_run_trace\<close> shows
  the row that the claim expects once line 143 yields its column.)
\<close>

theorem main_example_writes_no_songplays:
  "fst (main (\<lambda>k. int k) example_s3 Map.empty) = Some TypeError
   \<and> trace (snd (main (\<lambda>k. int k) example_s3 Map.empty)) =
       [Registered ''songs_table_view''
          (SongsView [(Some ''S1'', Some ''X'', Some ''A1'', Some 2000, Some (21 / 2), Some ''Y'')]),
        Written ''s3a://aws-logs-datalake-project-2022-us-west-2/songs'' Overwrite
          [''year'', ''artist_id'']
          (SongsTable [(Some ''S1'', Some ''X'', Some ''A1'', Some 2000, Some (21 / 2))]),
        Written ''s3a://aws-logs-datalake-project-2022-us-west-2/artists'' Overwrite []
          (ArtistsTable [(Some ''A1'', Some ''Y'', None, None, None)]),
        Written ''s3a://aws-logs-datalake-project-2022-us-west-2/users'' Overwrite []
          (UsersTable [(Some ''10'', None, None, None, None)])]
   \<and> storage (snd (main (\<lambda>k. int k) example_s3 Map.empty))
         ''s3a://aws-logs-datalake-project-2022-us-west-2/songplays'' = None"
proof -
  have l: "line_143 = Inl TypeError"
    by (simp add: line_143_def)
  show ?thesis
    unfolding main_def l
      main_with_Inl [where ?s3.0 = example_s3, OF example_s3_songs example_s3_logs]
    by (simp add: example_page example_songs_table example_songs_table_view
        example_artists_table example_users_table)
qed

subsection \<open>Reruns\<close>

text \<open>
  C7. A second run of the job on the same source bucket, started on the destination
  that the first run has left, ends as the first did and leaves the songs, artists,
  users and time tables as they were; the songplays table is the same up to the
  synthetic identifier, which the engine may choose differently.
\<close>

theorem rerun_leaves_tables_unchanged:
  assumes run1: "main_with col143 ids1 s3 files = (r1, w1)"
    and run2: "main_with col143 ids2 s3 (storage w1) = (r2, w2)"
  shows "r2 = r1
    \<and> storage w2 ''s3a://aws-logs-datalake-project-2022-us-west-2/songs''
        = storage w1 ''s3a://aws-logs-datalake-project-2022-us-west-2/songs''
    \<and> storage w2 ''s3a://aws-logs-datalake-project-2022-us-west-2/artists''
        = storage w1 ''s3a://aws-logs-datalake-project-2022-us-west-2/artists''
    \<and> storage w2 ''s3a://aws-logs-datalake-project-2022-us-west-2/users''
        = storage w1 ''s3a://aws-logs-datalake-project-2022-us-west-2/users''
    \<and> storage w2 ''s3a://aws-logs-datalake-project-2022-us-west-2/time''
        = storage w1 ''s3a://aws-logs-datalake-project-2022-us-west-2/time''
    \<and> map_option (\<lambda>f. (partitioned_by f, forget_songplay_id (content f)))
          (storage w2 ''s3a://aws-logs-datalake-project-2022-us-west-2/songplays'')
        = map_option (\<lambda>f. (partitioned_by f, forget_songplay_id (content f)))
          (storage w1 ''s3a://aws-logs-datalake-project-2022-us-west-2/songplays'')"
proof -
  have 1: "r1 = fst (main_with col143 ids1 s3 files)" "w1 = snd (main_with col143 ids1 s3 files)"
    using run1 by simp_all
  have 2: "r2 = fst (main_with col143 ids2 s3 (storage w1))"
    "w2 = snd (main_with col143 ids2 s3 (storage w1))"
    using run2 by simp_all
  show ?thesis
  proof (cases rule: main_with_cases [where ?s3.0 = s3 and ?col143.0 = col143])
    case song_unreadable
    note u = main_with_song_unreadable [where ?s3.0 = s3, OF song_unreadable]
    have "w1 = create_spark_session files" unfolding 1 u ..
    moreover have "w2 = create_spark_session (storage w1)" unfolding 2 u ..
    moreover have "r1 = r2"
      using run1 run2 song_unreadable
      by (auto simp: main_with_def process_song_data_def read_json_def Let_def
          split: option.splits json.splits)
    ultimately show ?thesis by (simp add: create_spark_session_def)
  next
    case (log_unreadable songs)
    note u = main_with_log_unreadable [where ?s3.0 = s3, OF log_unreadable]
    have "r1 = r2"
      using run1 run2 log_unreadable
      by (auto simp: main_with_def process_song_data_def process_log_data_with_def
          read_json_def Let_def split: option.splits json.splits)
    moreover have "storage w2 = (storage w1)
               (''s3a://aws-logs-datalake-project-2022-us-west-2/songs'' \<mapsto>
                  \<lparr>partitioned_by = [''year'', ''artist_id''],
                   content = SongsTable (songs_table songs)\<rparr>,
                ''s3a://aws-logs-datalake-project-2022-us-west-2/artists'' \<mapsto>
                  \<lparr>partitioned_by = [], content = ArtistsTable (artists_table songs)\<rparr>)"
      unfolding 2 u ..
    moreover have "storage w1 = files
               (''s3a://aws-logs-datalake-project-2022-us-west-2/songs'' \<mapsto>
                  \<lparr>partitioned_by = [''year'', ''artist_id''],
                   content = SongsTable (songs_table songs)\<rparr>,
                ''s3a://aws-logs-datalake-project-2022-us-west-2/artists'' \<mapsto>
                  \<lparr>partitioned_by = [], content = ArtistsTable (artists_table songs)\<rparr>)"
      unfolding 1 u ..
    ultimately show ?thesis by simp
  next
    case (failed songs events e)
    note u = main_with_Inl [where ?s3.0 = s3, OF failed(1,2)]
    show ?thesis
      unfolding 2 1 failed(3) u by simp
  next
    case (succeeded songs events c)
    note u = main_with_Inr [where ?s3.0 = s3, OF succeeded(1,2)]
    show ?thesis
      unfolding 2 1 succeeded(3) u by (simp add: forget_songplays_table)
  qed
qed

theorem rerun_leaves_tables_unchanged_witness:
  "fst (main_with (Inr ts_cast_timestamp) (\<lambda>k. int k) example_s3 Map.empty) = None
   \<and> fst (main_with (Inr ts_cast_timestamp) (\<lambda>k. int k + 100) example_s3
        (storage (snd (main_with (Inr ts_cast_timestamp) (\<lambda>k. int k) example_s3 Map.empty))))
      = None
   \<and> storage (snd (main_with (Inr ts_cast_timestamp) (\<lambda>k. int k + 100) example_s3
        (storage (snd (main_with (Inr ts_cast_timestamp) (\<lambda>k. int k) example_s3 Map.empty)))))
        ''s3a://aws-logs-datalake-project-2022-us-west-2/time''
      = storage (snd (main_with (Inr ts_cast_timestamp) (\<lambda>k. int k) example_s3 Map.empty))
        ''s3a://aws-logs-datalake-project-2022-us-west-2/time''
   \<and> map_option (\<lambda>f. (partitioned_by f, forget_songplay_id (content f)))
        (storage (snd (main_with (Inr ts_cast_timestamp) (\<lambda>k. int k + 100) example_s3
          (storage (snd (main_with (Inr ts_cast_timestamp) (\<lambda>k. int k) example_s3 Map.empty)))))
          ''s3a://aws-logs-datalake-project-2022-us-west-2/songplays'')
      = map_option (\<lambda>f. (partitioned_by f, forget_songplay_id (content f)))
        (storage (snd (main_with (Inr ts_cast_timestamp) (\<lambda>k. int k) example_s3 Map.empty))
          ''s3a://aws-logs-datalake-project-2022-us-west-2/songplays'')"
proof -
  have h1: "main_with (Inr ts_cast_timestamp) (\<lambda>k. int k) example_s3 Map.empty
      = (fst (main_with (Inr ts_cast_timestamp) (\<lambda>k. int k) example_s3 Map.empty),
         snd (main_with (Inr ts_cast_timestamp) (\<lambda>k. int k) example_s3 Map.empty))"
    by simp
  have h2: "main_with (Inr ts_cast_timestamp) (\<lambda>k. int k + 100) example_s3
        (storage (snd (main_with (Inr ts_cast_timestamp) (\<lambda>k. int k) example_s3 Map.empty)))
      = (fst (main_with (Inr ts_cast_timestamp) (\<lambda>k. int k + 100) example_s3
        (storage (snd (main_with (Inr ts_cast_timestamp) (\<lambda>k. int k) example_s3 Map.empty)))),
         snd (main_with (Inr ts_cast_timestamp) (\<lambda>k. int k + 100) example_s3
        (storage (snd (main_with (Inr ts_cast_timestamp) (\<lambda>k. int k) example_s3 Map.empty)))))"
    by simp
  from rerun_leaves_tables_unchanged [OF h1 h2] example_run_ok show ?thesis by simp
qed

subsection \<open>Order of the two pipelines\<close>

text \<open>
  C8. The job runs the song pipeline first, in a new session, and stops if it fails;
  otherwise it runs the log pipeline in the world that the song pipeline has left. The
  song pipeline registers \<^verbatim>\<open>songs_table_view\<close> exactly once, the log pipeline
  does not register it, and every query of a view is a query of
  \<^verbatim>\<open>songs_table_view\<close> made by the log pipeline that returns the rows
  registered by the song pipeline of this run.
\<close>

theorem song_pipeline_before_log_pipeline:
  assumes song: "process_song_data s3 ''s3a://udacity-dend/''
                   ''s3a://aws-logs-datalake-project-2022-us-west-2/''
                   (create_spark_session files) = (r1, w1)"
  shows "(r1 \<noteq> None \<longrightarrow> main_with col143 ids s3 files = (r1, w1))
    \<and> (r1 = None \<longrightarrow>
         main_with col143 ids s3 files =
           process_log_data_with col143 ids s3 ''s3a://udacity-dend/''
             ''s3a://aws-logs-datalake-project-2022-us-west-2/'' w1
         \<and> length (filter (registers ''songs_table_view'') (trace w1)) = 1
         \<and> filter (registers ''songs_table_view'') (trace (snd (main_with col143 ids s3 files)))
             = filter (registers ''songs_table_view'') (trace w1)
         \<and> (\<forall>n v. Queried n v \<in> set (trace (snd (main_with col143 ids s3 files))) \<longrightarrow>
               n = ''songs_table_view'' \<and> Queried n v \<notin> set (trace w1)
               \<and> Registered n v \<in> set (trace w1) \<and> views w1 n = Some v))"
proof (intro conjI impI)
  assume "r1 \<noteq> None"
  with song show "main_with col143 ids s3 files = (r1, w1)"
    by (auto simp: main_with_def Let_def)
next
  assume ok: "r1 = None"
  with song show run: "main_with col143 ids s3 files =
           process_log_data_with col143 ids s3 ''s3a://udacity-dend/''
             ''s3a://aws-logs-datalake-project-2022-us-west-2/'' w1"
    by (simp add: main_with_def Let_def)
  from song ok obtain songs where
    s: "s3 ''s3a://udacity-dend/song_data/*/*/*/*.json'' = Some (SongJson songs)"
    by (auto simp: process_song_data_def read_json_def Let_def
        split: option.splits json.splits)
  from song s have t1: "trace w1 =
      [Registered ''songs_table_view'' (SongsView (songs_table_view songs)),
       Written ''s3a://aws-logs-datalake-project-2022-us-west-2/songs'' Overwrite
         [''year'', ''artist_id''] (SongsTable (songs_table songs)),
       Written ''s3a://aws-logs-datalake-project-2022-us-west-2/artists'' Overwrite []
         (ArtistsTable (artists_table songs))]"
    and v1: "views w1 ''songs_table_view'' = Some (SongsView (songs_table_view songs))"
    by (auto simp: process_song_data_def read_json_def Let_def create_spark_session_def)
  show "length (filter (registers ''songs_table_view'') (trace w1)) = 1"
    unfolding t1 by simp
  have "filter (registers ''songs_table_view'') (trace (snd (main_with col143 ids s3 files)))
             = filter (registers ''songs_table_view'') (trace w1)
         \<and> (\<forall>n v. Queried n v \<in> set (trace (snd (main_with col143 ids s3 files))) \<longrightarrow>
               n = ''songs_table_view'' \<and> Queried n v \<notin> set (trace w1)
               \<and> Registered n v \<in> set (trace w1) \<and> views w1 n = Some v)"
  proof (cases rule: main_with_cases [where ?s3.0 = s3 and ?col143.0 = col143])
    case song_unreadable
    with s show ?thesis by simp
  next
    case (log_unreadable songs')
    with s have [simp]: "songs' = songs" by simp
    show ?thesis
      unfolding main_with_log_unreadable(2) [where ?s3.0 = s3, OF log_unreadable] t1
      by simp
  next
    case (failed songs' events e)
    with s have [simp]: "songs' = songs" by simp
    show ?thesis
      unfolding failed(3) main_with_Inl(2) [where ?s3.0 = s3, OF failed(1,2)] t1
      by simp
  next
    case (succeeded songs' events c)
    with s have [simp]: "songs' = songs" by simp
    show ?thesis
      unfolding succeeded(3) main_with_Inr(2) [where ?s3.0 = s3, OF succeeded(1,2)] t1
      using v1 by auto
  qed
  then show "filter (registers ''songs_table_view'') (trace (snd (main_with col143 ids s3 files)))
             = filter (registers ''songs_table_view'') (trace w1)"
    and "\<forall>n v. Queried n v \<in> set (trace (snd (main_with col143 ids s3 files))) \<longrightarrow>
               n = ''songs_table_view'' \<and> Queried n v \<notin> set (trace w1)
               \<and> Registered n v \<in> set (trace w1) \<and> views w1 n = Some v"
    by blast+
qed

theorem song_pipeline_before_log_pipeline_witness:
  "fst (process_song_data example_s3 ''s3a://udacity-dend/''
          ''s3a://aws-logs-datalake-project-2022-us-west-2/'' (create_spark_session Map.empty))
     = None
   \<and> Queried ''songs_table_view''
         (SongsView [(Some ''S1'', Some ''X'', Some ''A1'', Some 2000, Some (21 / 2), Some ''Y'')])
       \<in> set (trace (snd (main_with (Inr ts_cast_timestamp) (\<lambda>k. int k) example_s3
                               Map.empty)))
   \<and> Registered ''songs_table_view''
         (SongsView [(Some ''S1'', Some ''X'', Some ''A1'', Some 2000, Some (21 / 2), Some ''Y'')])
       \<in> set (trace (snd (process_song_data example_s3 ''s3a://udacity-dend/''
                  ''s3a://aws-logs-datalake-project-2022-us-west-2/''
                  (create_spark_session Map.empty))))
   \<and> length (filter (registers ''songs_table_view'')
         (trace (snd (process_song_data example_s3 ''s3a://udacity-dend/''
                  ''s3a://aws-logs-datalake-project-2022-us-west-2/''
                  (create_spark_session Map.empty))))) = 1"
proof -
  have h: "process_song_data example_s3 ''s3a://udacity-dend/''
             ''s3a://aws-logs-datalake-project-2022-us-west-2/'' (create_spark_session Map.empty)
           = (fst (process_song_data example_s3 ''s3a://udacity-dend/''
                ''s3a://aws-logs-datalake-project-2022-us-west-2/''
                (create_spark_session Map.empty)),
              snd (process_song_data example_s3 ''s3a://udacity-dend/''
                ''s3a://aws-logs-datalake-project-2022-us-west-2/''
                (create_spark_session Map.empty)))"
    by simp
  have ok: "fst (process_song_data example_s3 ''s3a://udacity-dend/''
          ''s3a://aws-logs-datalake-project-2022-us-west-2/'' (create_spark_session Map.empty))
     = None"
    by (simp add: process_song_data_def read_json_def example_s3_def Let_def)
  have q: "Queried ''songs_table_view''
         (SongsView [(Some ''S1'', Some ''X'', Some ''A1'', Some 2000, Some (21 / 2), Some ''Y'')])
       \<in> set (trace (snd (main_with (Inr ts_cast_timestamp) (\<lambda>k. int k) example_s3
                               Map.empty)))"
    unfolding example_run_trace by simp
  from song_pipeline_before_log_pipeline
         [OF h, of "Inr ts_cast_timestamp" "\<lambda>k. int k"] ok q
  show ?thesis by blast
qed

subsection \<open>Write modes and partitioning\<close>



subsection \<open>The unused select of line 121\<close>


end
